theory Spec2Isabelle
  imports Main "HOL-Library.Sublist"
begin

section \<open>Text\<close>

text \<open>
  Python \<open>str\<close> values are modelled as \<open>string\<close> (a list of characters), one
  list element per code point; the type \<open>char\<close> holds the code points 0 to 255.
  \<open>is_space\<close> is \<open>str.isspace\<close> on all of them. \<open>upper_char\<close> is \<open>str.upper\<close> on the
  ASCII letters and leaves every other character alone (Python also changes letters
  between 181 and 255; none of them becomes an ASCII letter).
\<close>

definition is_space :: "char \<Rightarrow> bool" where
  \<comment> \<open>\<open>str.isspace\<close>: tab, line feed, vertical tab, form feed, carriage return,
      the separators 28 to 31, the blank, next line (133) and the no-break
      space (160).\<close>
  "is_space c =
     (let n = (of_char c :: nat)
      in (9 \<le> n \<and> n \<le> 13) \<or> (28 \<le> n \<and> n \<le> 32) \<or> n = 133 \<or> n = 160)"

definition strip :: "string \<Rightarrow> string" where
  \<comment> \<open>\<open>s.strip()\<close>: leading and trailing white space removed.\<close>
  "strip s = rev (dropWhile is_space (rev (dropWhile is_space s)))"

definition upper_char :: "char \<Rightarrow> char" where
  "upper_char c =
     (let n = (of_char c :: nat)
      in if 97 \<le> n \<and> n \<le> 122 then char_of (n - 32) else c)"

definition upper :: "string \<Rightarrow> string" where
  \<comment> \<open>\<open>s.upper()\<close>\<close>
  "upper s = map upper_char s"

section \<open>Workers and settings\<close>

datatype tier = LIGHT | HEAVY

text \<open>The two concrete classes deriving from \<open>LLMInterface\<close>.\<close>

datatype impl = FlashImplementation | HighReasoningImplementation

fun tier_of :: "impl \<Rightarrow> tier" where
  "tier_of FlashImplementation = LIGHT"
| "tier_of HighReasoningImplementation = HEAVY"

text \<open>
  \<open>AppSettings\<close>: the three model identifiers (the API key plays no part in
  routing). \<open>main.py\<close> and \<open>app.py\<close> have no \<open>picker_model\<close> and ignore the field.
\<close>

record AppSettings =
  heavy_model :: string
  light_model :: string
  picker_model :: string

text \<open>
  The workers of \<open>main.py\<close> and \<open>app.py\<close> keep no conversation: a class and the
  model identifier it was constructed with.
\<close>

record oneshot_worker =
  ow_impl :: impl
  ow_model :: string

section \<open>Heuristic routing (\<open>app.py\<close>, \<open>main.py\<close>)\<close>

text \<open>
  \<open>app.py\<close>, \<open>route_logic(user_input, client, settings)\<close>. The client is only
  stored in the worker, so it is a parameter of any type here.
\<close>

definition app_route_logic :: "string \<Rightarrow> 'client \<Rightarrow> AppSettings \<Rightarrow> oneshot_worker \<times> string" where
  "app_route_logic user_input client settings =
     (if length user_input < 100
      then (\<lparr>ow_impl = FlashImplementation, ow_model = light_model settings\<rparr>,
            ''Gemini Flash (Fast)'')
      else (\<lparr>ow_impl = HighReasoningImplementation, ow_model = heavy_model settings\<rparr>,
            ''Gemini Pro (Reasoning)''))"

text \<open>\<open>main.py\<close>, \<open>route_logic(client, settings, user_prompt)\<close>.\<close>

definition main_route_logic :: "'client \<Rightarrow> AppSettings \<Rightarrow> string \<Rightarrow> oneshot_worker \<times> string" where
  "main_route_logic client settings user_prompt =
     (if length user_prompt > 20
      then (\<lparr>ow_impl = HighReasoningImplementation, ow_model = heavy_model settings\<rparr>,
            heavy_model settings)
      else (\<lparr>ow_impl = FlashImplementation, ow_model = light_model settings\<rparr>,
            light_model settings))"

section \<open>Conversational workers (\<open>tui.py\<close>)\<close>

text \<open>
  The chat object returned by \<open>client.aio.chats.create(model=...)\<close>: opaque, it
  remembers the model it was created for.
\<close>

datatype chat = Chat string

text \<open>
  \<open>FlashImplementation\<close> and \<open>HighReasoningImplementation\<close> of \<open>tui.py\<close>: the class,
  \<open>_model_name\<close> and \<open>_chat_session\<close> (\<open>None\<close> until the first task).
\<close>

record worker =
  w_impl :: impl
  model_name :: string
  chat_session :: "chat option"

text \<open>
  What an awaited remote call does: it returns a value or raises an exception, of
  which the code only ever reads \<open>str(e)\<close>.
\<close>

datatype 'a outcome = Return 'a | Raise string

text \<open>
  The remote service as one request sees it. \<open>picker_send model prompt\<close> is what
  creating a chat for \<open>model\<close> and sending it \<open>prompt\<close> yields: the response's
  \<open>text\<close> attribute (which may be \<open>None\<close>) or an exception. \<open>worker_send i\<close> is what
  the \<open>i\<close>-th call of \<open>send_message\<close> on the worker's chat yields during this request.
\<close>

record client =
  picker_send :: "string \<Rightarrow> string \<Rightarrow> string option outcome"
  worker_send :: "nat \<Rightarrow> string outcome"

text \<open>The lines written to the \<open>RichLog\<close> widget.\<close>

datatype log_line =
    AppInitialized   \<comment> \<open>"App initialized: ..."\<close>
  | Routing          \<comment> \<open>"Routing..."\<close>
  | RoutedTo string  \<comment> \<open>"Routed to: {model_name}"\<close>
  | Retrying nat nat \<comment> \<open>"Server overloaded. Retrying in {wait_time}s{dots}": the
                         delay and the number of dots, \<open>attempt + 1\<close>\<close>
  | Result "string option" \<comment> \<open>"{result}" after the loudspeaker sign\<close>
  | Rule             \<comment> \<open>fifty dashes\<close>
  | Error string     \<comment> \<open>"Error: {e}"\<close>
  | You string       \<comment> \<open>"You: {user_text}"\<close>
  | SessionReset     \<comment> \<open>"Session Reset. Memory cleared."\<close>

text \<open>Everything a handler does to the outside, in the order it does it.\<close>

datatype effect =
    LogWrite log_line
  | LogClear
  | InputClear              \<comment> \<open>the input's value set to the empty string\<close>
  | InputFocus
  | StatusUpdate string     \<comment> \<open>the status label's text\<close>
  | RouteLogic string       \<comment> \<open>\<open>route_logic\<close> awaited for this user prompt\<close>
  | ChatsCreate string      \<comment> \<open>a worker's chat created for this model\<close>
  | SendMessage chat string \<comment> \<open>\<open>send_message(prompt)\<close> awaited on a worker's chat\<close>
  | Sleep nat               \<comment> \<open>\<open>asyncio.sleep(wait_time)\<close> awaited\<close>

text \<open>
  \<open>process_task\<close> is the same in both classes: the chat is created on the first
  call and kept. \<open>reply\<close> is what \<open>send_message\<close> yields this time.
\<close>

definition process_task :: "worker \<Rightarrow> string \<Rightarrow> string outcome \<Rightarrow> string outcome \<times> worker \<times> effect list" where
  "process_task self prompt_text reply =
     (case chat_session self of
        None \<Rightarrow>
          (reply, self\<lparr>chat_session := Some (Chat (model_name self))\<rparr>,
           [ChatsCreate (model_name self), SendMessage (Chat (model_name self)) prompt_text])
      | Some c \<Rightarrow> (reply, self, [SendMessage c prompt_text]))"

section \<open>Delegated routing (\<open>tui.py\<close>)\<close>

definition router_prompt :: "string \<Rightarrow> string" where
  "router_prompt user_prompt =
     ''Analyze this prompt: '' @ [CHR 0x27] @ user_prompt @ [CHR 0x27, CHR 0x0A] @
     ''If it requires complex reasoning, coding, or creative writing, reply '' @
       [CHR 0x27] @ ''HEAVY'' @ [CHR 0x27] @ ''.'' @ [CHR 0x0A] @
     ''If it is a simple greeting, factual lookup, or short question, reply '' @
       [CHR 0x27] @ ''LIGHT'' @ [CHR 0x27] @ ''.'' @ [CHR 0x0A] @
     ''Reply ONLY with the word HEAVY or LIGHT.''"

text \<open>
  \<open>route_logic(client, settings, user_prompt)\<close> of \<open>tui.py\<close>. The \<open>try\<close> block ends
  with \<open>response.text.strip().upper()\<close>; a \<open>text\<close> of \<open>None\<close> raises there and is
  caught like every other exception.
\<close>

definition route_logic :: "client \<Rightarrow> AppSettings \<Rightarrow> string \<Rightarrow> worker \<times> string" where
  "route_logic client settings user_prompt =
     (let decision =
        (case picker_send client (picker_model settings) (router_prompt user_prompt) of
           Return (Some text) \<Rightarrow> upper (strip text)
         | Return None \<Rightarrow> ''HEAVY''
         | Raise e \<Rightarrow> ''HEAVY'')
      in if sublist ''HEAVY'' decision
         then (\<lparr>w_impl = HighReasoningImplementation, model_name = heavy_model settings,
                 chat_session = None\<rparr>, heavy_model settings)
         else (\<lparr>w_impl = FlashImplementation, model_name = light_model settings,
                 chat_session = None\<rparr>, light_model settings))"

text \<open>
  What an \<open>await\<close> on a remote call can deliver inside a task: the outcome of the
  call, or an exception that is not an \<open>Exception\<close> (\<open>asyncio.CancelledError\<close> when the
  task is cancelled, \<open>KeyboardInterrupt\<close>), named by its class.
\<close>

datatype 'a awaited = Outcome "'a outcome" | Interrupted string

text \<open>
  \<open>route_logic\<close> of \<open>tui.py\<close> again, with all that its \<open>await\<close> can deliver. The
  handler is \<open>except Exception\<close>: it catches what the call raises, and an exception
  outside \<open>Exception\<close> leaves \<open>route_logic\<close> (\<open>Inl\<close>). \<open>send\<close> stands for creating
  the picker's chat and awaiting \<open>send_message\<close> on it.
\<close>

definition route_logic_awaited ::
  "(string \<Rightarrow> string \<Rightarrow> string option awaited) \<Rightarrow> AppSettings \<Rightarrow> string
     \<Rightarrow> string + worker \<times> string" where
  "route_logic_awaited send settings user_prompt =
     (case send (picker_model settings) (router_prompt user_prompt) of
        Interrupted b \<Rightarrow> Inl b
      | Outcome r \<Rightarrow>
          (let decision =
             (case r of
                Return (Some text) \<Rightarrow> upper (strip text)
              | Return None \<Rightarrow> ''HEAVY''
              | Raise e \<Rightarrow> ''HEAVY'')
           in if sublist ''HEAVY'' decision
              then Inr (\<lparr>w_impl = HighReasoningImplementation,
                          model_name = heavy_model settings, chat_session = None\<rparr>,
                        heavy_model settings)
              else Inr (\<lparr>w_impl = FlashImplementation,
                          model_name = light_model settings, chat_session = None\<rparr>,
                        light_model settings)))"

section \<open>The application (\<open>GeminiTui\<close>)\<close>

record GeminiTui =
  settings :: AppSettings
  current_worker :: "worker option"
  current_model_name :: "string option"

text \<open>
  The retry loop of \<open>process_user_request\<close>, \<open>for attempt in range(max_retries)\<close>,
  from the iteration \<open>attempt\<close> on. The result is \<open>Inl e\<close> when the loop leaves by
  \<open>raise e\<close> and otherwise \<open>Inr\<close> of the variable \<open>result\<close>, which is still \<open>None\<close> when
  the range is empty. Inside the loop \<open>attempt < max_retries\<close>, so \<open>max_retries - 1\<close>
  is the same on \<open>nat\<close> as on Python's integers.
\<close>

function retry_loop ::
  "nat \<Rightarrow> nat \<Rightarrow> (nat \<Rightarrow> string outcome) \<Rightarrow> string \<Rightarrow> nat \<Rightarrow> worker
     \<Rightarrow> (string + string option) \<times> worker \<times> effect list" where
  "retry_loop max_retries base_delay send prompt attempt worker =
     (if attempt < max_retries then
        (let (reply, worker', es) = process_task worker prompt (send attempt) in
         case reply of
           Return r \<Rightarrow> (Inr (Some r), worker', es)
         | Raise error_str \<Rightarrow>
             if sublist ''503'' error_str \<and> attempt < max_retries - 1 then
               (let wait_time = base_delay * 2 ^ attempt;
                    (result, worker'', es') =
                       retry_loop max_retries base_delay send prompt (attempt + 1) worker'
                in (result, worker'',
                    es @ [LogWrite (Retrying wait_time (attempt + 1)), Sleep wait_time] @ es'))
             else (Inl error_str, worker', es))
      else (Inr None, worker, []))"
  by pat_completeness auto
termination
  by (relation "measure (\<lambda>(max_retries, base_delay, send, prompt, attempt, worker).
        max_retries - attempt)") auto

text \<open>
  \<open>process_user_request(prompt)\<close>, run to its end with no \<open>await\<close> interrupted. The local \<open>worker\<close> and
  \<open>self.current_worker\<close> are one object, so the chat created by the first task shows
  in \<open>current_worker\<close>.
\<close>

definition process_user_request :: "GeminiTui \<Rightarrow> client \<Rightarrow> string \<Rightarrow> GeminiTui \<times> effect list" where
  "process_user_request self client prompt =
     (let (self1, worker, es1) =
        (case current_worker self of
           None \<Rightarrow>
             (let (worker, model_name) = route_logic client (settings self) prompt
              in (self\<lparr>current_worker := Some worker, current_model_name := Some model_name\<rparr>,
                  worker,
                  [LogWrite Routing, RouteLogic prompt, LogWrite (RoutedTo model_name)]))
         | Some worker \<Rightarrow> (self, worker, []));
          max_retries = 5;
          base_delay = 1;
          (result, worker', es2) =
             retry_loop max_retries base_delay (worker_send client) prompt 0 worker;
          es3 = (case result of
                   Inr r \<Rightarrow> [LogWrite (Result r), LogWrite Rule]
                 | Inl e \<Rightarrow> [LogWrite (Error e)])
      in (self1\<lparr>current_worker := Some worker'\<rparr>,
          es1 @ es2 @ es3 @ [StatusUpdate ''WAITING'']))"

text \<open>
  \<open>on_input_submitted\<close>, followed by the request it starts. \<open>client\<close> is the remote
  service's behaviour while that request runs.
\<close>

definition on_input_submitted :: "GeminiTui \<Rightarrow> client \<Rightarrow> string \<Rightarrow> GeminiTui \<times> effect list" where
  "on_input_submitted self client value =
     (let user_text = strip value in
      if user_text = [] then (self, [])
      else (let (self', es) = process_user_request self client user_text
            in (self', [InputClear, LogWrite (You user_text)] @ es)))"

definition action_new_session :: "GeminiTui \<Rightarrow> GeminiTui \<times> effect list" where
  "action_new_session self =
     (self\<lparr>current_worker := None, current_model_name := None\<rparr>,
      [LogClear, InputFocus, LogWrite SessionReset])"

text \<open>
  \<open>__init__\<close> and \<open>on_mount\<close> when the settings load. (When they do not, \<open>on_mount\<close>
  writes one error line and the application has neither settings nor client: there
  is no state of this model then, and what follows says nothing about it.)
\<close>

definition on_mount :: "AppSettings \<Rightarrow> GeminiTui \<times> effect list" where
  "on_mount s =
     (\<lparr>settings = s, current_worker = None, current_model_name = None\<rparr>,
      [LogWrite AppInitialized, InputFocus])"

text \<open>The field defaults of \<open>AppSettings\<close> in \<open>tui.py\<close>.\<close>

definition default_settings :: AppSettings where
  "default_settings =
     \<lparr>heavy_model = ''gemini-2.5-flash'', light_model = ''gemini-flash-lite-latest'',
      picker_model = ''gemini-2.0-flash-lite-preview-02-05''\<rparr>"

text \<open>
  The field defaults of \<open>AppSettings\<close> in \<open>app.py\<close> and in \<open>main.py\<close>, which have
  no picker model.
\<close>

definition app_default_settings :: AppSettings where
  "app_default_settings =
     \<lparr>heavy_model = ''gemini-2-pro-preview'', light_model = ''gemini-2.5-flash'',
      picker_model = []\<rparr>"

definition main_default_settings :: AppSettings where
  "main_default_settings =
     \<lparr>heavy_model = ''gemini-2.5-flash'', light_model = ''gemini-2.5-flash'',
      picker_model = []\<rparr>"

section \<open>Reading a list of effects\<close>

fun route_calls :: "effect list \<Rightarrow> nat" where
  "route_calls [] = 0"
| "route_calls (RouteLogic p # es) = Suc (route_calls es)"
| "route_calls (e # es) = route_calls es"

fun chats_created :: "effect list \<Rightarrow> nat" where
  "chats_created [] = 0"
| "chats_created (ChatsCreate m # es) = Suc (chats_created es)"
| "chats_created (e # es) = chats_created es"

fun attempts :: "effect list \<Rightarrow> (chat \<times> string) list" where
  "attempts [] = []"
| "attempts (SendMessage c p # es) = (c, p) # attempts es"
| "attempts (e # es) = attempts es"

fun delays :: "effect list \<Rightarrow> nat list" where
  "delays [] = []"
| "delays (Sleep d # es) = d # delays es"
| "delays (e # es) = delays es"

fun log_lines :: "effect list \<Rightarrow> log_line list" where
  "log_lines [] = []"
| "log_lines (LogWrite l # es) = l # log_lines es"
| "log_lines (e # es) = log_lines es"

fun retry_notes :: "effect list \<Rightarrow> (nat \<times> nat) list" where
  "retry_notes [] = []"
| "retry_notes (LogWrite (Retrying d n) # es) = (d, n) # retry_notes es"
| "retry_notes (e # es) = retry_notes es"

text \<open>The chat a worker talks to: its own, or the one its first task creates.\<close>

definition worker_chat :: "worker \<Rightarrow> chat" where
  "worker_chat w = (case chat_session w of None \<Rightarrow> Chat (model_name w) | Some c \<Rightarrow> c)"

text \<open>
  The two readings the loop makes of what a task yields: the test
  \<open>"503" in error_str\<close>, and how the loop ends when it ends at this task.
\<close>

fun is_transient :: "string outcome \<Rightarrow> bool" where
  "is_transient (Raise e) = sublist ''503'' e"
| "is_transient (Return r) = False"

fun loop_result :: "string outcome \<Rightarrow> string + string option" where
  "loop_result (Return r) = Inr (Some r)"
| "loop_result (Raise e) = Inl e"

text \<open>What one failed and retried iteration \<open>n\<close> of the loop does, on chat \<open>c\<close>.\<close>

abbreviation retry_round :: "nat \<Rightarrow> chat \<Rightarrow> string \<Rightarrow> nat \<Rightarrow> effect list" where
  "retry_round b c p n \<equiv>
     [SendMessage c p, LogWrite (Retrying (b * 2 ^ n) (Suc n)), Sleep (b * 2 ^ n)]"

section \<open>Remote services with a fixed script\<close>

text \<open>
  A client whose picker always yields \<open>pick\<close> and whose worker chat yields the
  entries of \<open>script\<close> one call after the other, then \<open>final\<close> for ever.
\<close>

definition scripted :: "string option outcome \<Rightarrow> string outcome list \<Rightarrow> string outcome \<Rightarrow> client" where
  "scripted pick script final =
     \<lparr>picker_send = (\<lambda>model prompt. pick),
      worker_send = (\<lambda>i. if i < length script then script ! i else final)\<rparr>"

text \<open>A picker call that always yields \<open>r\<close>, and one interrupted by \<open>b\<close>.\<close>

definition picker_yields :: "string option outcome \<Rightarrow> string \<Rightarrow> string \<Rightarrow> string option awaited" where
  "picker_yields r model prompt = Outcome r"

definition picker_interrupted :: "string \<Rightarrow> string \<Rightarrow> string \<Rightarrow> string option awaited" where
  "picker_interrupted b model prompt = Interrupted b"

section \<open>A session bound to the heavy tier\<close>

text \<open>
  The state a session is in after its first prompt was routed to the heavy model
  under the default settings.
\<close>

definition heavy_worker :: worker where
  "heavy_worker =
     \<lparr>w_impl = HighReasoningImplementation, model_name = ''gemini-2.5-flash'',
      chat_session = Some (Chat ''gemini-2.5-flash'')\<rparr>"

definition heavy_session :: GeminiTui where
  "heavy_session =
     \<lparr>settings = default_settings, current_worker = Some heavy_worker,
      current_model_name = Some ''gemini-2.5-flash''\<rparr>"

text \<open>A bound worker has its chat: true of every state the handlers produce.\<close>

definition chat_ready :: "GeminiTui \<Rightarrow> bool" where
  "chat_ready self =
     (case current_worker self of None \<Rightarrow> True | Some w \<Rightarrow> chat_session w \<noteq> None)"

section \<open>Properties of heuristic routing\<close>

text \<open>
  C8 as stated fails for \<open>main.py\<close>. Its threshold is 20 characters: a prompt of 50
  characters, shorter than 100, is routed to the heavy model.
\<close>

theorem main_routes_fifty_characters_heavy:
  "length (replicate 50 CHR ''x'') < 100 \<and>
   tier_of (ow_impl (fst (main_route_logic () main_default_settings (replicate 50 CHR ''x'')))) = HEAVY"
  by (simp add: main_route_logic_def)

text \<open>
  C8, as the code has it. In \<open>app.py\<close> a prompt shorter than 100 characters gets the
  light class with the light model and the label of the fast model, and every other
  prompt the heavy class with the heavy model and the label of the reasoning model.
  In \<open>main.py\<close> the same holds with the threshold at 20: up to 20 characters light,
  from 21 characters on heavy. In both, the tier depends on the prompt text alone,
  not on the client or the settings.
\<close>

theorem heuristic_thresholds:
  "tier_of (ow_impl (fst (app_route_logic text c s))) =
     (if length text < 100 then LIGHT else HEAVY) \<and>
   ow_model (fst (app_route_logic text c s)) =
     (if length text < 100 then light_model s else heavy_model s) \<and>
   snd (app_route_logic text c s) =
     (if length text < 100 then ''Gemini Flash (Fast)'' else ''Gemini Pro (Reasoning)'') \<and>
   tier_of (ow_impl (fst (main_route_logic c s text))) =
     (if length text \<le> 20 then LIGHT else HEAVY) \<and>
   ow_model (fst (main_route_logic c s text)) =
     (if length text \<le> 20 then light_model s else heavy_model s) \<and>
   snd (main_route_logic c s text) =
     (if length text \<le> 20 then light_model s else heavy_model s) \<and>
   tier_of (ow_impl (fst (app_route_logic text c s))) =
     tier_of (ow_impl (fst (app_route_logic text c' s'))) \<and>
   tier_of (ow_impl (fst (main_route_logic c s text))) =
     tier_of (ow_impl (fst (main_route_logic c' s' text)))"
  by (simp add: app_route_logic_def main_route_logic_def)

theorem heuristic_thresholds_witness:
  "tier_of (ow_impl (fst (app_route_logic ''hi'' () app_default_settings))) = LIGHT \<and>
   ow_model (fst (app_route_logic ''hi'' () app_default_settings)) = ''gemini-2.5-flash'' \<and>
   tier_of (ow_impl (fst (app_route_logic (replicate 150 CHR ''x'') () app_default_settings))) = HEAVY \<and>
   ow_model (fst (app_route_logic (replicate 150 CHR ''x'') () app_default_settings)) =
     ''gemini-2-pro-preview'' \<and>
   tier_of (ow_impl (fst (main_route_logic () main_default_settings (replicate 20 CHR ''x'')))) = LIGHT \<and>
   tier_of (ow_impl (fst (main_route_logic () main_default_settings (replicate 21 CHR ''x'')))) = HEAVY"
  using heuristic_thresholds [of "''hi''" "()" app_default_settings "()" app_default_settings]
    heuristic_thresholds [of "replicate 150 CHR ''x''" "()" app_default_settings
       "()" app_default_settings]
    heuristic_thresholds [of "replicate 20 CHR ''x''" "()" main_default_settings
       "()" main_default_settings]
    heuristic_thresholds [of "replicate 21 CHR ''x''" "()" main_default_settings
       "()" main_default_settings]
  by (simp add: app_default_settings_def)

section \<open>The retry loop\<close>

declare retry_loop.simps [simp del]

lemma process_task_eq:
  "process_task w p reply =
     (reply, w\<lparr>chat_session := Some (worker_chat w)\<rparr>,
      (if chat_session w = None then [ChatsCreate (model_name w)] else []) @
      [SendMessage (worker_chat w) p])"
  by (cases "chat_session w") (simp_all add: process_task_def worker_chat_def)

lemma worker_chat_bound [simp]:
  "worker_chat (w\<lparr>chat_session := Some c\<rparr>) = c"
  by (simp add: worker_chat_def)

lemma retry_loop_stops_at:
  assumes "a \<le> i" "i < m"
    and "\<forall>j. a \<le> j \<and> j < i \<longrightarrow> is_transient (send j)"
    and "\<not> is_transient (send i) \<or> i = m - 1"
  shows "retry_loop m b send p a w =
     (loop_result (send i), w\<lparr>chat_session := Some (worker_chat w)\<rparr>,
      (if chat_session w = None then [ChatsCreate (model_name w)] else []) @
      concat (map (retry_round b (worker_chat w) p) [a..<i]) @
      [SendMessage (worker_chat w) p])"
  using assms
proof (induction "i - a" arbitrary: a w)
  case 0
  then have ai: "a = i" by simp
  show ?case
  proof (cases "send i")
    case (Return r)
    with 0 ai show ?thesis
      by (subst retry_loop.simps) (simp add: process_task_eq)
  next
    case (Raise e)
    with 0 ai show ?thesis
      by (subst retry_loop.simps) (auto simp add: process_task_eq)
  qed
next
  case (Suc n)
  then have lt: "a < i" by simp
  with Suc.prems have tr: "is_transient (send a)" by simp
  then obtain e where e: "send a = Raise e" "sublist ''503'' e"
    by (cases "send a") simp_all
  let ?w = "w\<lparr>chat_session := Some (worker_chat w)\<rparr>"
  have ih: "retry_loop m b send p (Suc a) ?w =
     (loop_result (send i), ?w,
      concat (map (retry_round b (worker_chat w) p) [Suc a..<i]) @
      [SendMessage (worker_chat w) p])"
    using Suc.hyps(1)[of "Suc a" ?w] Suc.hyps(2) Suc.prems lt by simp
  have upt: "[a..<i] = a # [Suc a..<i]" using lt by (simp add: upt_conv_Cons)
  from lt Suc.prems have "a < m - 1" by simp
  with e ih upt lt Suc.prems show ?case
    by (subst retry_loop.simps) (simp add: process_task_eq Let_def)
qed


lemma route_calls_append [simp]: "route_calls (xs @ ys) = route_calls xs + route_calls ys"
  by (induction xs rule: route_calls.induct) simp_all

lemma chats_created_append [simp]: "chats_created (xs @ ys) = chats_created xs + chats_created ys"
  by (induction xs rule: chats_created.induct) simp_all

lemma attempts_append [simp]: "attempts (xs @ ys) = attempts xs @ attempts ys"
  by (induction xs rule: attempts.induct) simp_all

lemma delays_append [simp]: "delays (xs @ ys) = delays xs @ delays ys"
  by (induction xs rule: delays.induct) simp_all

lemma log_lines_append [simp]: "log_lines (xs @ ys) = log_lines xs @ log_lines ys"
  by (induction xs rule: log_lines.induct) simp_all

lemma retry_notes_append [simp]: "retry_notes (xs @ ys) = retry_notes xs @ retry_notes ys"
  by (induction xs rule: retry_notes.induct) simp_all

lemma route_calls_rounds [simp]:
  "route_calls (concat (map (retry_round b c p) ns)) = 0"
  by (induction ns) simp_all

lemma chats_created_rounds [simp]:
  "chats_created (concat (map (retry_round b c p) ns)) = 0"
  by (induction ns) simp_all

lemma attempts_rounds [simp]:
  "attempts (concat (map (retry_round b c p) ns)) = replicate (length ns) (c, p)"
  by (induction ns) simp_all

lemma delays_rounds [simp]:
  "delays (concat (map (retry_round b c p) ns)) = map (\<lambda>n. b * 2 ^ n) ns"
  by (induction ns) simp_all

lemma retry_notes_rounds [simp]:
  "retry_notes (concat (map (retry_round b c p) ns)) = map (\<lambda>n. (b * 2 ^ n, Suc n)) ns"
  by (induction ns) simp_all

lemma log_lines_rounds [simp]:
  "log_lines (concat (map (retry_round b c p) ns)) = map (\<lambda>n. Retrying (b * 2 ^ n) (Suc n)) ns"
  by (induction ns) simp_all

lemma retry_loop_shape:
  assumes "a < m"
  shows "\<exists>i. a \<le> i \<and> i < m \<and> (\<forall>j. a \<le> j \<and> j < i \<longrightarrow> is_transient (send j)) \<and>
     (\<not> is_transient (send i) \<or> i = m - 1) \<and>
     retry_loop m b send p a w =
       (loop_result (send i), w\<lparr>chat_session := Some (worker_chat w)\<rparr>,
        (if chat_session w = None then [ChatsCreate (model_name w)] else []) @
        concat (map (retry_round b (worker_chat w) p) [a..<i]) @
        [SendMessage (worker_chat w) p])"
proof -
  define stop where "stop i \<longleftrightarrow> a \<le> i \<and> (\<not> is_transient (send i) \<or> i = m - 1)" for i
  define i where "i = (LEAST i. stop i)"
  from assms have "stop (m - 1)" by (simp add: stop_def)
  then have si: "stop i" and le: "i \<le> m - 1"
    unfolding i_def by (rule LeastI, rule Least_le)
  have before: "is_transient (send j)" if "a \<le> j" "j < i" for j
  proof (rule ccontr)
    assume "\<not> is_transient (send j)"
    with that have "stop j" by (simp add: stop_def)
    then have "i \<le> j" unfolding i_def by (rule Least_le)
    with that show False by simp
  qed
  from si have ai: "a \<le> i" and last: "\<not> is_transient (send i) \<or> i = m - 1"
    by (simp_all add: stop_def)
  from le assms have im: "i < m" by simp
  from before have all: "\<forall>j. a \<le> j \<and> j < i \<longrightarrow> is_transient (send j)" by blast
  from retry_loop_stops_at [OF ai im all last] ai im all last show ?thesis by blast
qed

lemma retry_loop_worker:
  "a < m \<Longrightarrow> fst (snd (retry_loop m b send p a w)) = w\<lparr>chat_session := Some (worker_chat w)\<rparr>"
  using retry_loop_shape [of a m send b p w] by auto

lemma retry_loop_route_calls:
  "route_calls (snd (snd (retry_loop m b send p a w))) = 0"
proof (cases "a < m")
  case True
  then show ?thesis using retry_loop_shape [of a m send b p w] by auto
next
  case False
  then show ?thesis by (subst retry_loop.simps) simp
qed

lemma retry_loop_chats_created:
  "a < m \<Longrightarrow> chats_created (snd (snd (retry_loop m b send p a w))) =
     (if chat_session w = None then 1 else 0)"
  using retry_loop_shape [of a m send b p w] by auto

lemma retry_loop_attempts:
  "set (attempts (snd (snd (retry_loop m b send p a w)))) \<subseteq> {(worker_chat w, p)}"
proof (cases "a < m")
  case True
  then show ?thesis using retry_loop_shape [of a m send b p w] by (auto split: if_splits)
next
  case False
  then show ?thesis by (subst retry_loop.simps) simp
qed

text \<open>
  C2. When the first \<open>k\<close> tasks of a request fail with a message containing "503"
  and the next one returns \<open>text\<close>, with \<open>k < max_retries\<close>, the loop ends with
  \<open>text\<close> after exactly \<open>k + 1\<close> tasks; between task \<open>i\<close> and the next it writes one
  retry line (delay \<open>base_delay * 2 ^ i\<close>, \<open>i + 1\<close> dots) and then sleeps
  \<open>base_delay * 2 ^ i\<close>, in this order, and it writes no retry line when \<open>k = 0\<close>.
\<close>

theorem retry_then_success:
  assumes "k < max_retries"
    and "\<forall>i<k. is_transient (send i)"
    and "send k = Return text"
  shows "retry_loop max_retries base_delay send prompt 0 worker =
           (Inr (Some text), worker\<lparr>chat_session := Some (worker_chat worker)\<rparr>,
            (if chat_session worker = None then [ChatsCreate (model_name worker)] else []) @
            concat (map (retry_round base_delay (worker_chat worker) prompt) [0..<k]) @
            [SendMessage (worker_chat worker) prompt]) \<and>
         attempts (snd (snd (retry_loop max_retries base_delay send prompt 0 worker))) =
           replicate (k + 1) (worker_chat worker, prompt) \<and>
         delays (snd (snd (retry_loop max_retries base_delay send prompt 0 worker))) =
           map (\<lambda>i. base_delay * 2 ^ i) [0..<k] \<and>
         retry_notes (snd (snd (retry_loop max_retries base_delay send prompt 0 worker))) =
           map (\<lambda>i. (base_delay * 2 ^ i, i + 1)) [0..<k]"
proof -
  from assms(2) have before: "\<forall>j. 0 \<le> j \<and> j < k \<longrightarrow> is_transient (send j)" by simp
  from assms(3) have stop: "\<not> is_transient (send k) \<or> k = max_retries - 1" by simp
  have eq: "retry_loop max_retries base_delay send prompt 0 worker =
           (Inr (Some text), worker\<lparr>chat_session := Some (worker_chat worker)\<rparr>,
            (if chat_session worker = None then [ChatsCreate (model_name worker)] else []) @
            concat (map (retry_round base_delay (worker_chat worker) prompt) [0..<k]) @
            [SendMessage (worker_chat worker) prompt])"
    using retry_loop_stops_at [OF le0 assms(1) before stop] assms(3) by simp
  show ?thesis
    unfolding eq by (simp add: replicate_append_same)
qed

theorem retry_then_success_witness:
  "retry_loop 3 1 (worker_send (scripted (Return None)
       [Raise ''503 UNAVAILABLE'', Raise ''503 UNAVAILABLE''] (Return ''OK''))) ''hi'' 0 heavy_worker =
     (Inr (Some ''OK''), heavy_worker,
      [SendMessage (Chat ''gemini-2.5-flash'') ''hi'', LogWrite (Retrying 1 1), Sleep 1,
       SendMessage (Chat ''gemini-2.5-flash'') ''hi'', LogWrite (Retrying 2 2), Sleep 2,
       SendMessage (Chat ''gemini-2.5-flash'') ''hi'']) \<and>
   delays (snd (snd (retry_loop 3 1 (worker_send (scripted (Return None)
       [Raise ''503 UNAVAILABLE'', Raise ''503 UNAVAILABLE''] (Return ''OK''))) ''hi'' 0 heavy_worker)))
     = [1, 2]"
proof -
  let ?send = "worker_send (scripted (Return None)
       [Raise ''503 UNAVAILABLE'', Raise ''503 UNAVAILABLE''] (Return ''OK''))"
  have k: "(2::nat) < 3" by simp
  have s: "sublist ''503'' ''503 UNAVAILABLE''" by code_simp
  have tr: "\<forall>i<2. is_transient (?send i)"
    using s by (simp add: scripted_def less_2_cases_iff)
  have ok: "?send 2 = Return ''OK''" by (simp add: scripted_def)
  from retry_then_success [of 2 3 ?send "''OK''" 1 "''hi''" heavy_worker, OF k tr ok]
  show ?thesis
    by (simp add: heavy_worker_def worker_chat_def upt_rec)
qed

text \<open>
  C3. Whatever \<open>max_retries \<ge> 1\<close> is, when the first task fails with a message that
  does not contain "503" the loop raises that error after this one task, without
  sleeping and without a retry line.
\<close>

theorem fatal_first_attempt_fails_at_once:
  assumes "1 \<le> max_retries"
    and "send 0 = Raise e"
    and "\<not> sublist ''503'' e"
  shows "retry_loop max_retries base_delay send prompt 0 worker =
           (Inl e, worker\<lparr>chat_session := Some (worker_chat worker)\<rparr>,
            (if chat_session worker = None then [ChatsCreate (model_name worker)] else []) @
            [SendMessage (worker_chat worker) prompt]) \<and>
         attempts (snd (snd (retry_loop max_retries base_delay send prompt 0 worker))) =
           [(worker_chat worker, prompt)] \<and>
         delays (snd (snd (retry_loop max_retries base_delay send prompt 0 worker))) = [] \<and>
         retry_notes (snd (snd (retry_loop max_retries base_delay send prompt 0 worker))) = []"
proof -
  from assms(1) have lt: "0 < max_retries" by simp
  from assms(2,3) have stop: "\<not> is_transient (send 0) \<or> 0 = max_retries - 1" by simp
  have eq: "retry_loop max_retries base_delay send prompt 0 worker =
           (Inl e, worker\<lparr>chat_session := Some (worker_chat worker)\<rparr>,
            (if chat_session worker = None then [ChatsCreate (model_name worker)] else []) @
            [SendMessage (worker_chat worker) prompt])"
    using retry_loop_stops_at [of 0 0 max_retries send base_delay prompt worker] lt stop assms(2)
    by simp
  show ?thesis
    unfolding eq by simp
qed

theorem fatal_first_attempt_fails_at_once_witness:
  "retry_loop 5 1 (worker_send (scripted (Return None) [] (Raise ''401 UNAUTHENTICATED'')))
       ''hi'' 0 heavy_worker =
     (Inl ''401 UNAUTHENTICATED'', heavy_worker, [SendMessage (Chat ''gemini-2.5-flash'') ''hi''])"
proof -
  let ?send = "worker_send (scripted (Return None) [] (Raise ''401 UNAUTHENTICATED''))"
  have m: "(1::nat) \<le> 5" by simp
  have e: "?send 0 = Raise ''401 UNAUTHENTICATED''" by (simp add: scripted_def)
  have f: "\<not> sublist ''503'' ''401 UNAUTHENTICATED''" by code_simp
  from fatal_first_attempt_fails_at_once
         [of 5 ?send "''401 UNAUTHENTICATED''" 1 "''hi''" heavy_worker, OF m e f]
  show ?thesis
    by (simp add: heavy_worker_def worker_chat_def)
qed

text \<open>
  C4 as stated fails. With a service that answers every task with "503 UNAVAILABLE"
  the fifth task's error is what the loop raises, and the request ends with the
  line "Error: 503 UNAVAILABLE", the same line a single failure with that message
  would give: the code has no error of its own for exhausted retries.
\<close>

theorem exhaustion_shows_raw_error:
  "worker_send (scripted (Return (Some ''LIGHT'')) [] (Raise ''503 UNAVAILABLE'')) 4 =
     Raise ''503 UNAVAILABLE'' \<and>
   fst (retry_loop 5 1 (worker_send (scripted (Return (Some ''LIGHT'')) [] (Raise ''503 UNAVAILABLE'')))
          ''hi'' 0 heavy_worker) = Inl ''503 UNAVAILABLE'' \<and>
   log_lines (snd (process_user_request (fst (on_mount default_settings))
      (scripted (Return (Some ''LIGHT'')) [] (Raise ''503 UNAVAILABLE'')) ''hi'')) =
     [Routing, RoutedTo ''gemini-flash-lite-latest'',
      Retrying 1 1, Retrying 2 2, Retrying 4 3, Retrying 8 4, Error ''503 UNAVAILABLE'']"
  by code_simp

text \<open>
  C4, as the code has it. When every task fails with a message containing "503", the
  loop runs exactly \<open>max_retries\<close> tasks, sleeping \<open>base_delay * 2 ^ i\<close> after each but
  the last, and then raises the error of the last task itself.
\<close>

theorem transient_every_time_raises_last_error:
  assumes "1 \<le> max_retries"
    and "\<forall>i<max_retries. is_transient (send i)"
  shows "(\<exists>e. send (max_retries - 1) = Raise e \<and> sublist ''503'' e \<and>
            fst (retry_loop max_retries base_delay send prompt 0 worker) = Inl e) \<and>
         attempts (snd (snd (retry_loop max_retries base_delay send prompt 0 worker))) =
           replicate max_retries (worker_chat worker, prompt) \<and>
         delays (snd (snd (retry_loop max_retries base_delay send prompt 0 worker))) =
           map (\<lambda>i. base_delay * 2 ^ i) [0..<max_retries - 1] \<and>
         retry_notes (snd (snd (retry_loop max_retries base_delay send prompt 0 worker))) =
           map (\<lambda>i. (base_delay * 2 ^ i, i + 1)) [0..<max_retries - 1]"
proof -
  from assms(1) have lt: "max_retries - 1 < max_retries" by simp
  from assms(2) have before: "\<forall>j. 0 \<le> j \<and> j < max_retries - 1 \<longrightarrow> is_transient (send j)" by simp
  from assms(2) lt have "is_transient (send (max_retries - 1))" by blast
  then obtain e where e: "send (max_retries - 1) = Raise e" "sublist ''503'' e"
    by (cases "send (max_retries - 1)") simp_all
  have eq: "retry_loop max_retries base_delay send prompt 0 worker =
           (Inl e, worker\<lparr>chat_session := Some (worker_chat worker)\<rparr>,
            (if chat_session worker = None then [ChatsCreate (model_name worker)] else []) @
            concat (map (retry_round base_delay (worker_chat worker) prompt) [0..<max_retries - 1]) @
            [SendMessage (worker_chat worker) prompt])"
    using retry_loop_stops_at [OF le0 lt before, of base_delay prompt worker] e(1) by simp
  have len: "Suc (max_retries - 1) = max_retries" using assms(1) by simp
  have rep: "replicate (max_retries - Suc 0) x @ [x] = replicate max_retries x"
    for x :: "chat \<times> string"
    using len by (metis One_nat_def replicate_append_same replicate_Suc)
  show ?thesis
    unfolding eq using e by (simp add: rep)
qed

theorem transient_every_time_raises_last_error_witness:
  "attempts (snd (snd (retry_loop 5 1
       (worker_send (scripted (Return None) [] (Raise ''503 UNAVAILABLE''))) ''hi'' 0 heavy_worker))) =
     replicate 5 (Chat ''gemini-2.5-flash'', ''hi'') \<and>
   delays (snd (snd (retry_loop 5 1
       (worker_send (scripted (Return None) [] (Raise ''503 UNAVAILABLE''))) ''hi'' 0 heavy_worker))) =
     [1, 2, 4, 8]"
proof -
  let ?send = "worker_send (scripted (Return None) [] (Raise ''503 UNAVAILABLE''))"
  have m: "(1::nat) \<le> 5" by simp
  have s: "sublist ''503'' ''503 UNAVAILABLE''" by code_simp
  have tr: "\<forall>i<5. is_transient (?send i)" using s by (simp add: scripted_def)
  have u: "[0..<5 - 1] = [0, 1, 2, 3]" by (simp add: upt_rec)
  from transient_every_time_raises_last_error [of 5 ?send 1 "''hi''" heavy_worker, OF m tr]
  show ?thesis
    unfolding u by (simp add: heavy_worker_def worker_chat_def)
qed

section \<open>Requests\<close>

lemma process_user_request_bound:
  assumes "current_worker self = Some w"
  shows "process_user_request self client prompt =
     (self\<lparr>current_worker := Some (fst (snd (retry_loop 5 1 (worker_send client) prompt 0 w)))\<rparr>,
      snd (snd (retry_loop 5 1 (worker_send client) prompt 0 w)) @
      (case fst (retry_loop 5 1 (worker_send client) prompt 0 w) of
         Inr r \<Rightarrow> [LogWrite (Result r), LogWrite Rule]
       | Inl e \<Rightarrow> [LogWrite (Error e)]) @
      [StatusUpdate ''WAITING''])"
  using assms by (simp add: process_user_request_def case_prod_beta)

lemma process_user_request_unbound:
  assumes "current_worker self = None"
  shows "process_user_request self client prompt =
     (self\<lparr>current_worker :=
              Some (fst (snd (retry_loop 5 1 (worker_send client) prompt 0
                                (fst (route_logic client (settings self) prompt))))),
            current_model_name := Some (snd (route_logic client (settings self) prompt))\<rparr>,
      [LogWrite Routing, RouteLogic prompt,
       LogWrite (RoutedTo (snd (route_logic client (settings self) prompt)))] @
      snd (snd (retry_loop 5 1 (worker_send client) prompt 0
                  (fst (route_logic client (settings self) prompt)))) @
      (case fst (retry_loop 5 1 (worker_send client) prompt 0
                   (fst (route_logic client (settings self) prompt))) of
         Inr r \<Rightarrow> [LogWrite (Result r), LogWrite Rule]
       | Inl e \<Rightarrow> [LogWrite (Error e)]) @
      [StatusUpdate ''WAITING''])"
  using assms by (simp add: process_user_request_def case_prod_beta)

lemma route_calls_outcome [simp]:
  "route_calls (case r of Inr x \<Rightarrow> [LogWrite (Result x), LogWrite Rule]
                | Inl e \<Rightarrow> [LogWrite (Error e)]) = 0"
  by (cases r) simp_all

lemma chats_created_outcome [simp]:
  "chats_created (case r of Inr x \<Rightarrow> [LogWrite (Result x), LogWrite Rule]
                | Inl e \<Rightarrow> [LogWrite (Error e)]) = 0"
  by (cases r) simp_all

lemma attempts_outcome [simp]:
  "attempts (case r of Inr x \<Rightarrow> [LogWrite (Result x), LogWrite Rule]
                | Inl e \<Rightarrow> [LogWrite (Error e)]) = []"
  by (cases r) simp_all

lemma route_logic_fresh [simp]:
  "chat_session (fst (route_logic client s p)) = None"
  "model_name (fst (route_logic client s p)) = snd (route_logic client s p)"
  by (simp_all add: route_logic_def Let_def)

lemma worker_chat_ready: "chat_session w = Some c \<Longrightarrow> w\<lparr>chat_session := Some (worker_chat w)\<rparr> = w"
  by (simp add: worker_chat_def)

lemma bound_request_keeps_state:
  assumes "current_worker self = Some w" "chat_session w = Some c"
  shows "fst (process_user_request self client prompt) = self"
    and "route_calls (snd (process_user_request self client prompt)) = 0"
    and "chats_created (snd (process_user_request self client prompt)) = 0"
    and "set (attempts (snd (process_user_request self client prompt))) \<subseteq> {(c, prompt)}"
proof -
  have w': "fst (snd (retry_loop 5 1 (worker_send client) prompt 0 w)) = w"
    using retry_loop_worker [of 0 5 1 "worker_send client" prompt w] assms(2)
    by (simp add: worker_chat_ready)
  have wc: "worker_chat w = c" using assms(2) by (simp add: worker_chat_def)
  show "fst (process_user_request self client prompt) = self"
    using assms(1) w' by (simp add: process_user_request_bound)
  show "route_calls (snd (process_user_request self client prompt)) = 0"
    using assms(1) by (simp add: process_user_request_bound retry_loop_route_calls)
  show "chats_created (snd (process_user_request self client prompt)) = 0"
    using assms by (simp add: process_user_request_bound retry_loop_chats_created)
  show "set (attempts (snd (process_user_request self client prompt))) \<subseteq> {(c, prompt)}"
    using assms(1) retry_loop_attempts [of 5 1 "worker_send client" prompt 0 w] wc
    by (simp add: process_user_request_bound)
qed

lemma unbound_request_binds:
  assumes "current_worker self = None"
  shows "route_calls (snd (process_user_request self client prompt)) = 1"
    and "chats_created (snd (process_user_request self client prompt)) = 1"
    and "current_worker (fst (process_user_request self client prompt)) =
           Some ((fst (route_logic client (settings self) prompt))
                   \<lparr>chat_session := Some (Chat (snd (route_logic client (settings self) prompt)))\<rparr>)"
    and "current_model_name (fst (process_user_request self client prompt)) =
           Some (snd (route_logic client (settings self) prompt))"
proof -
  let ?w = "fst (route_logic client (settings self) prompt)"
  have wc: "worker_chat ?w = Chat (snd (route_logic client (settings self) prompt))"
    by (simp add: worker_chat_def)
  show "route_calls (snd (process_user_request self client prompt)) = 1"
    using assms by (simp add: process_user_request_unbound retry_loop_route_calls)
  show "chats_created (snd (process_user_request self client prompt)) = 1"
    using assms by (simp add: process_user_request_unbound retry_loop_chats_created)
  show "current_worker (fst (process_user_request self client prompt)) =
           Some (?w\<lparr>chat_session := Some (Chat (snd (route_logic client (settings self) prompt)))\<rparr>)"
    using assms retry_loop_worker [of 0 5 1 "worker_send client" prompt ?w] wc
    by (simp add: process_user_request_unbound)
  show "current_model_name (fst (process_user_request self client prompt)) =
           Some (snd (route_logic client (settings self) prompt))"
    using assms by (simp add: process_user_request_unbound)
qed

text \<open>
  In \<open>process_user_request\<close> the loop runs with \<open>max_retries = 5\<close> and
  \<open>base_delay = 1\<close>: after \<open>k < 5\<close> failures with "503" the request has slept
  1, 2, 4, ... seconds, written one retry line each time, and ends with the result.
\<close>

lemma bound_request_retries:
  assumes "current_worker self = Some w" and "k < 5"
    and "\<forall>i<k. is_transient (worker_send client i)"
    and "worker_send client k = Return text"
  shows "delays (snd (process_user_request self client prompt)) = map (\<lambda>i. 2 ^ i) [0..<k]"
    and "log_lines (snd (process_user_request self client prompt)) =
           map (\<lambda>i. Retrying (2 ^ i) (Suc i)) [0..<k] @ [Result (Some text), Rule]"
proof -
  from assms(3) have before: "\<forall>j. 0 \<le> j \<and> j < k \<longrightarrow> is_transient (worker_send client j)"
    by simp
  from assms(4) have stop: "\<not> is_transient (worker_send client k) \<or> k = 5 - 1" by simp
  note eq = retry_loop_stops_at [OF le0 assms(2) before stop, of "Suc 0" prompt w]
  show "delays (snd (process_user_request self client prompt)) = map (\<lambda>i. 2 ^ i) [0..<k]"
    using assms(1,4)
    by (simp add: process_user_request_bound eq delays_rounds [where b = "Suc 0", simplified])
  show "log_lines (snd (process_user_request self client prompt)) =
           map (\<lambda>i. Retrying (2 ^ i) (Suc i)) [0..<k] @ [Result (Some text), Rule]"
    using assms(1,4)
    by (simp add: process_user_request_bound eq log_lines_rounds [where b = "Suc 0", simplified])
qed

lemma bound_request_route_calls:
  "current_worker self = Some w \<Longrightarrow> route_calls (snd (process_user_request self client prompt)) = 0"
  by (simp add: process_user_request_bound retry_loop_route_calls)

lemma action_new_session_unbinds [simp]:
  "current_worker (fst (action_new_session self)) = None"
  "current_model_name (fst (action_new_session self)) = None"
  "settings (fst (action_new_session self)) = settings self"
  by (simp_all add: action_new_session_def)

text \<open>
  C1. Handling a prompt awaits \<open>route_logic\<close> once if \<open>current_worker\<close> is \<open>None\<close> and
  not at all otherwise. On a bound session whose worker has its chat the state is
  left as it was, no chat is created and every message goes to that chat. After
  \<open>action_new_session\<close> the session is unbound, and the next prompt awaits \<open>route_logic\<close>
  once and binds a new worker, for which one chat is created.
\<close>

theorem classifier_runs_iff_unbound:
  "route_calls (snd (process_user_request self client prompt)) =
     (if current_worker self = None then 1 else 0) \<and>
   (current_worker self = Some w \<and> chat_session w = Some c \<longrightarrow>
      fst (process_user_request self client prompt) = self \<and>
      chats_created (snd (process_user_request self client prompt)) = 0 \<and>
      set (attempts (snd (process_user_request self client prompt))) \<subseteq> {(c, prompt)}) \<and>
   current_worker (fst (action_new_session self)) = None \<and>
   current_model_name (fst (action_new_session self)) = None \<and>
   route_calls (snd (process_user_request (fst (action_new_session self)) client prompt)) = 1 \<and>
   chats_created (snd (process_user_request (fst (action_new_session self)) client prompt)) = 1 \<and>
   current_worker (fst (process_user_request (fst (action_new_session self)) client prompt)) =
     Some ((fst (route_logic client (settings self) prompt))
             \<lparr>chat_session := Some (Chat (snd (route_logic client (settings self) prompt)))\<rparr>)"
proof -
  have a: "route_calls (snd (process_user_request self client prompt)) =
     (if current_worker self = None then 1 else 0)"
  proof (cases "current_worker self")
    case None
    then show ?thesis by (simp add: unbound_request_binds(1))
  next
    case (Some v)
    then show ?thesis by (simp add: bound_request_route_calls)
  qed
  have b: "current_worker self = Some w \<and> chat_session w = Some c \<longrightarrow>
      fst (process_user_request self client prompt) = self \<and>
      chats_created (snd (process_user_request self client prompt)) = 0 \<and>
      set (attempts (snd (process_user_request self client prompt))) \<subseteq> {(c, prompt)}"
    using bound_request_keeps_state [of self w c client prompt] by blast
  have u: "current_worker (fst (action_new_session self)) = None" by simp
  note r = unbound_request_binds [OF u, of client prompt]
  from a b r show ?thesis by simp
qed

theorem classifier_runs_iff_unbound_witness:
  "fst (process_user_request heavy_session (scripted (Raise ''down'') [] (Return ''4'')) ''and 2+2?'')
     = heavy_session \<and>
   route_calls (snd (process_user_request heavy_session
      (scripted (Raise ''down'') [] (Return ''4'')) ''and 2+2?'')) = 0 \<and>
   route_calls (snd (process_user_request (fst (action_new_session heavy_session))
      (scripted (Raise ''down'') [] (Return ''4'')) ''and 2+2?'')) = 1"
  using classifier_runs_iff_unbound [of heavy_session "scripted (Raise ''down'') [] (Return ''4'')"
      "''and 2+2?''" heavy_worker "Chat ''gemini-2.5-flash''"]
  by (simp add: heavy_session_def heavy_worker_def)

text \<open>
  C7. When a request on a bound session ends with an error line, the state of the
  session is what it was before the request, and the next prompt is handled without
  awaiting \<open>route_logic\<close> and without creating a chat: its messages go to the chat
  the session already had.
\<close>

theorem failed_request_keeps_binding:
  assumes "current_worker self = Some w" and "chat_session w = Some c"
    and "Error e \<in> set (log_lines (snd (process_user_request self client prompt)))"
  shows "fst (process_user_request self client prompt) = self \<and>
     route_calls (snd (process_user_request (fst (process_user_request self client prompt))
                         client' prompt')) = 0 \<and>
     chats_created (snd (process_user_request (fst (process_user_request self client prompt))
                         client' prompt')) = 0 \<and>
     set (attempts (snd (process_user_request (fst (process_user_request self client prompt))
                         client' prompt'))) \<subseteq> {(c, prompt')}"
  using bound_request_keeps_state [OF assms(1,2)] by simp

theorem failed_request_keeps_binding_witness:
  "Error ''401 UNAUTHENTICATED'' \<in> set (log_lines (snd (process_user_request heavy_session
      (scripted (Return None) [] (Raise ''401 UNAUTHENTICATED'')) ''hi''))) \<and>
   fst (process_user_request heavy_session
      (scripted (Return None) [] (Raise ''401 UNAUTHENTICATED'')) ''hi'') = heavy_session \<and>
   route_calls (snd (process_user_request (fst (process_user_request heavy_session
      (scripted (Return None) [] (Raise ''401 UNAUTHENTICATED'')) ''hi''))
      (scripted (Return None) [] (Return ''ok'')) ''again'')) = 0"
proof -
  have h: "Error ''401 UNAUTHENTICATED'' \<in> set (log_lines (snd (process_user_request heavy_session
      (scripted (Return None) [] (Raise ''401 UNAUTHENTICATED'')) ''hi'')))"
    by code_simp
  have w: "current_worker heavy_session = Some heavy_worker"
    by (simp add: heavy_session_def)
  have c: "chat_session heavy_worker = Some (Chat ''gemini-2.5-flash'')"
    by (simp add: heavy_worker_def)
  from failed_request_keeps_binding [OF w c h, of "scripted (Return None) [] (Return ''ok'')" "''again''"] h
  show ?thesis by blast
qed

lemma strip_blank:
  assumes "\<forall>c\<in>set s. is_space c"
  shows "strip s = []"
  using assms by (auto simp add: strip_def dest: set_dropWhileD)

text \<open>
  C10. Submitting an input that is empty or consists of white space only (every
  character that \<open>str.strip\<close> removes) changes nothing and has no effect: no routing,
  no task, no line written.
\<close>

theorem blank_prompt_is_ignored:
  "\<forall>c\<in>set value. is_space c \<Longrightarrow> on_input_submitted self client value = (self, [])"
  by (simp add: on_input_submitted_def strip_blank)

theorem blank_prompt_is_ignored_witness:
  "on_input_submitted heavy_session (scripted (Return None) [] (Return ''ok''))
     [CHR '' '', CHR 0x09, CHR 0x0A, CHR 0xA0, CHR 0x85] = (heavy_session, []) \<and>
   on_input_submitted (fst (on_mount default_settings)) (scripted (Return None) [] (Return ''ok''))
     [] = (fst (on_mount default_settings), [])"
  using blank_prompt_is_ignored [of "[CHR '' '', CHR 0x09, CHR 0x0A, CHR 0xA0, CHR 0x85]" heavy_session
      "scripted (Return None) [] (Return ''ok'')"]
    blank_prompt_is_ignored [of "[]" "fst (on_mount default_settings)"
      "scripted (Return None) [] (Return ''ok'')"]
  by (simp add: is_space_def)

text \<open>
  The converse: these are the only inputs that are ignored. Any other input is
  stripped, echoed and handled.
\<close>

lemma strip_eq_Nil_iff: "strip s = [] \<longleftrightarrow> (\<forall>c\<in>set s. is_space c)"
proof
  assume "\<forall>c\<in>set s. is_space c"
  then show "strip s = []" by (rule strip_blank)
next
  assume "strip s = []"
  then have all: "\<forall>x\<in>set (dropWhile is_space s). is_space x"
    by (simp add: strip_def)
  have "dropWhile is_space s = []"
  proof (rule ccontr)
    assume ne: "dropWhile is_space s \<noteq> []"
    then have "\<not> is_space (hd (dropWhile is_space s))" by (rule hd_dropWhile)
    moreover from ne have "hd (dropWhile is_space s) \<in> set (dropWhile is_space s)" by simp
    ultimately show False using all by blast
  qed
  then show "\<forall>c\<in>set s. is_space c" by simp
qed

lemma nonblank_prompt_is_handled:
  assumes "\<not> (\<forall>c\<in>set value. is_space c)"
  shows "on_input_submitted self client value =
           (fst (process_user_request self client (strip value)),
            [InputClear, LogWrite (You (strip value))] @
            snd (process_user_request self client (strip value)))"
proof -
  from assms have "strip value \<noteq> []" by (simp add: strip_eq_Nil_iff)
  then show ?thesis
    by (simp add: on_input_submitted_def Let_def case_prod_beta)
qed

text \<open>
  When the picker call raises an \<open>Exception\<close>, \<open>route_logic\<close> returns the heavy worker
  and the heavy model's name.
\<close>

lemma route_logic_exception:
  assumes "picker_send client (picker_model s) (router_prompt user_prompt) = Raise e"
  shows "route_logic client s user_prompt =
           (\<lparr>w_impl = HighReasoningImplementation, model_name = heavy_model s,
             chat_session = None\<rparr>, heavy_model s)"
  using assms by (simp add: route_logic_def sublist_code)

text \<open>
  As long as the \<open>await\<close> is not interrupted, \<open>route_logic_awaited\<close> is
  \<open>route_logic\<close>.
\<close>

lemma route_logic_awaited_outcome:
  assumes "send (picker_model s) (router_prompt p) =
             Outcome (picker_send client (picker_model s) (router_prompt p))"
  shows "route_logic_awaited send s p = Inr (route_logic client s p)"
  using assms
  by (simp add: route_logic_awaited_def route_logic_def Let_def
           split: outcome.splits option.splits)

text \<open>
  C6 as stated fails. When the picker's \<open>await\<close> is interrupted by
  \<open>asyncio.CancelledError\<close>, which is not an \<open>Exception\<close>, the handler of
  \<open>route_logic\<close> does not catch it and \<open>route_logic\<close> raises it to its caller.
\<close>

theorem cancelled_picker_call_propagates:
  "route_logic_awaited (picker_interrupted ''CancelledError'') default_settings ''hi'' =
     Inl ''CancelledError''"
  by (simp add: route_logic_awaited_def picker_interrupted_def)

text \<open>
  C6, as the code has it. When the picker call raises an \<open>Exception\<close>,
  \<open>route_logic\<close> returns the heavy worker and the heavy model's name. It raises to
  its caller exactly when the \<open>await\<close> delivers an exception outside \<open>Exception\<close>,
  and then it raises that exception.
\<close>

theorem picker_exception_falls_back_to_heavy:
  "(send (picker_model s) (router_prompt user_prompt) = Outcome (Raise e) \<longrightarrow>
      route_logic_awaited send s user_prompt =
        Inr (\<lparr>w_impl = HighReasoningImplementation, model_name = heavy_model s,
               chat_session = None\<rparr>, heavy_model s)) \<and>
   (send (picker_model s) (router_prompt user_prompt) = Interrupted b \<longrightarrow>
      route_logic_awaited send s user_prompt = Inl b) \<and>
   ((\<exists>x. route_logic_awaited send s user_prompt = Inl x) \<longleftrightarrow>
      (\<exists>x. send (picker_model s) (router_prompt user_prompt) = Interrupted x))"
  by (auto simp add: route_logic_awaited_def Let_def sublist_code split: awaited.splits)

theorem picker_exception_falls_back_to_heavy_witness:
  "route_logic_awaited (picker_yields (Raise ''picker unreachable'')) default_settings ''hi'' =
     Inr (\<lparr>w_impl = HighReasoningImplementation, model_name = ''gemini-2.5-flash'',
            chat_session = None\<rparr>, ''gemini-2.5-flash'') \<and>
   route_logic_awaited (picker_interrupted ''KeyboardInterrupt'') default_settings ''hi'' =
     Inl ''KeyboardInterrupt''"
  using picker_exception_falls_back_to_heavy
      [of "picker_yields (Raise ''picker unreachable'')" default_settings "''hi''"
          "''picker unreachable''"]
    picker_exception_falls_back_to_heavy
      [of "picker_interrupted ''KeyboardInterrupt''" default_settings "''hi''" _
          "''KeyboardInterrupt''"]
  by (simp add: picker_yields_def picker_interrupted_def default_settings_def)

text \<open>
  Every state the handlers produce has a chat on its bound worker, so the condition
  on the worker's chat above holds for every session that was started by \<open>on_mount\<close>.
\<close>

lemma chat_ready_on_mount: "chat_ready (fst (on_mount s))"
  by (simp add: chat_ready_def on_mount_def)

lemma chat_ready_process_user_request: "chat_ready (fst (process_user_request self client prompt))"
proof (cases "current_worker self")
  case None
  then show ?thesis by (simp add: chat_ready_def unbound_request_binds(3))
next
  case (Some w)
  then show ?thesis
    by (simp add: chat_ready_def process_user_request_bound retry_loop_worker)
qed

lemma chat_ready_action_new_session: "chat_ready (fst (action_new_session self))"
  by (simp add: chat_ready_def)

lemma chat_ready_on_input_submitted:
  "chat_ready self \<Longrightarrow> chat_ready (fst (on_input_submitted self client value))"
  by (simp add: on_input_submitted_def Let_def case_prod_beta chat_ready_process_user_request)

section \<open>The picker's reply\<close>

lemma sublist_dropWhile_iff:
  assumes "xs \<noteq> []" and "\<not> P (hd xs)"
  shows "sublist xs (dropWhile P ys) = sublist xs ys"
proof
  assume "sublist xs (dropWhile P ys)"
  then obtain ps ss where "dropWhile P ys = ps @ xs @ ss"
    by (auto simp add: sublist_def)
  then have "ys = (takeWhile P ys @ ps) @ xs @ ss"
    by (metis takeWhile_dropWhile_id append_assoc)
  then show "sublist xs ys"
    unfolding sublist_def by blast
next
  assume "sublist xs ys"
  then show "sublist xs (dropWhile P ys)"
  proof (induction ys)
    case Nil
    then show ?case by simp
  next
    case (Cons y ys)
    show ?case
    proof (cases "P y")
      case True
      from assms obtain x xs' where xs: "xs = x # xs'" "\<not> P x" by (cases xs) auto
      with True have "\<not> prefix xs (y # ys)" by auto
      with Cons.prems have "sublist xs ys" by (simp add: sublist_Cons_right)
      with Cons.IH True show ?thesis by simp
    next
      case False
      with Cons.prems show ?thesis by simp
    qed
  qed
qed

lemma upper_occurrence:
  "sublist tok (upper text) \<longleftrightarrow> (\<exists>ps t ss. text = ps @ t @ ss \<and> upper t = tok)"
proof
  assume "sublist tok (upper text)"
  then obtain ps ss where "map upper_char text = ps @ tok @ ss"
    by (auto simp add: sublist_def upper_def)
  then obtain us vs where uv: "text = us @ vs" "tok @ ss = map upper_char vs"
    by (auto simp add: map_eq_append_conv)
  from uv(2) obtain t w where tw: "vs = t @ w" "tok = map upper_char t"
    by (auto simp add: append_eq_map_conv)
  from uv(1) tw have "text = us @ t @ w \<and> upper t = tok"
    by (simp add: upper_def)
  then show "\<exists>ps t ss. text = ps @ t @ ss \<and> upper t = tok"
    by blast
next
  assume "\<exists>ps t ss. text = ps @ t @ ss \<and> upper t = tok"
  then show "sublist tok (upper text)"
    by (auto simp add: upper_def)
qed


lemma is_space_upper_char [simp]: "is_space (upper_char c) = is_space c"
  by (auto simp add: is_space_def upper_char_def Let_def)

lemma upper_strip: "upper (strip s) = strip (upper s)"
proof -
  have comp: "is_space \<circ> upper_char = is_space" by (rule ext) simp
  show ?thesis
    by (simp add: upper_def strip_def dropWhile_map rev_map comp)
qed

lemma sublist_strip_iff:
  assumes "xs \<noteq> []" and "\<not> is_space (hd xs)" and "\<not> is_space (last xs)"
  shows "sublist xs (strip ys) = sublist xs ys"
proof -
  from assms have r: "rev xs \<noteq> []" "\<not> is_space (hd (rev xs))" by (simp_all add: hd_rev)
  have "sublist xs (strip ys) = sublist (rev xs) (dropWhile is_space (rev (dropWhile is_space ys)))"
    by (simp add: strip_def sublist_rev_right)
  also have "\<dots> = sublist (rev xs) (rev (dropWhile is_space ys))"
    using r by (rule sublist_dropWhile_iff [of "rev xs" is_space "rev (dropWhile is_space ys)"])
  also have "\<dots> = sublist xs (dropWhile is_space ys)" by simp
  also have "\<dots> = sublist xs ys"
    using assms(1,2) by (rule sublist_dropWhile_iff [of xs is_space ys])
  finally show ?thesis .
qed

lemma heavy_in_stripped: "sublist ''HEAVY'' (upper (strip text)) = sublist ''HEAVY'' (upper text)"
proof -
  have a: "''HEAVY'' \<noteq> []" by simp
  have b: "\<not> is_space (hd ''HEAVY'')" by (simp add: is_space_def)
  have c: "\<not> is_space (last ''HEAVY'')" by (simp add: is_space_def)
  show ?thesis
    unfolding upper_strip by (rule sublist_strip_iff [OF a b c])
qed

text \<open>
  C5, as the code has it. When the picker replies with \<open>text\<close>, the tier is heavy
  exactly when HEAVY occurs in \<open>text\<close> in any mix of upper and lower case, wherever
  it stands and whether or not LIGHT occurs too; in every other case, also when
  neither word occurs, the tier is light. (Stripping the reply changes nothing, by
  \<open>heavy_in_stripped\<close>; \<open>upper_occurrence\<close> spells out what occurring means.)
\<close>

theorem heavy_wins_else_light:
  assumes "picker_send client (picker_model s) (router_prompt user_prompt) = Return (Some text)"
  shows "tier_of (w_impl (fst (route_logic client s user_prompt))) =
           (if sublist ''HEAVY'' (upper text) then HEAVY else LIGHT)"
  using assms by (simp add: route_logic_def heavy_in_stripped)

theorem heavy_wins_else_light_witness:
  "tier_of (w_impl (fst (route_logic (scripted (Return (Some '' Light, not heavy. '')) [] (Return ''ok''))
      default_settings ''hi''))) = HEAVY \<and>
   tier_of (w_impl (fst (route_logic (scripted (Return (Some ''light'')) [] (Return ''ok''))
      default_settings ''hi''))) = LIGHT"
proof -
  have a: "sublist ''HEAVY'' (upper '' Light, not heavy. '')" by code_simp
  have b: "\<not> sublist ''HEAVY'' (upper ''light'')" by code_simp
  have p: "picker_send (scripted (Return (Some t)) [] (Return ''ok'')) m q = Return (Some t)" for t m q
    by (simp add: scripted_def)
  from heavy_wins_else_light [OF p, of "'' Light, not heavy. ''" default_settings "''hi''"]
    heavy_wins_else_light [OF p, of "''light''" default_settings "''hi''"] a b
  show ?thesis by (simp only: if_True if_False simp_thms)
qed

text \<open>
  C5 as stated fails. The reply "maybe" contains neither HEAVY nor LIGHT, and the
  request is routed to the light model, not to the heavy one: the \<open>else\<close> branch
  of \<open>route_logic\<close> takes every reply without HEAVY.
\<close>

theorem unmatched_reply_routes_light:
  "\<not> sublist ''HEAVY'' (upper ''maybe'') \<and> \<not> sublist ''LIGHT'' (upper ''maybe'') \<and>
   tier_of (w_impl (fst (route_logic (scripted (Return (Some ''maybe'')) [] (Return ''ok''))
      default_settings ''hi''))) = LIGHT"
  by code_simp

end
